theory Spec2Isabelle
  imports Complex_Main
begin

section \<open>Weather dashboard: forecast pipeline, alerts, city comparison\<close>

text \<open>
  A shallow embedding of \<^verbatim>\<open>MiniProject.py\<close>. The script is a Streamlit page; what it
  computes is the forecast table of the first tab (unit conversion, alerts, daily
  aggregation) and the two-city comparison of the third tab.

  Conventions of the embedding:
  \<^item> Numbers are rationals (\<^typ>\<open>rat\<close>). The numbers of the program are binary64
    floating-point numbers, which are rationals; \<open>is_double\<close> says that a rational is one
    of them, and \<open>fl\<close> rounds a rational to the nearest of them. The sums and the
    division of the daily mean are rounded as the program rounds them. The conversion
    to Fahrenheit and the centre of the map are written with exact arithmetic.
  \<^item> The payloads of the forecast, weather and population services follow the schema of
    their feed: the fields the script reads are present and have the type the feed
    documents. What can still go wrong is written out: the connection fails, the status
    is not 200, the body is not JSON, a list is empty. The payload of the geocoder in
    \<^verbatim>\<open>get_city_coordinates\<close> is not typed: a field may be missing, null, or a text.
  \<^item> A raised exception is \<open>Inl\<close> of a sum type, a normal result is \<open>Inr\<close>.
  \<^item> The answers of the remote services are parameters of the model.
\<close>

subsection \<open>Exceptions and HTTP replies\<close>

datatype exn =
    RequestException string
  | JSONDecodeError string
  | KeyError string
  | IndexError string
  | TypeError string
  | Halt string

text \<open>
  \<open>Halt msg\<close> is \<^verbatim>\<open>st.error(msg); st.stop()\<close>: the message is shown and the run of the
  script ends there. The other constructors carry the text of \<^verbatim>\<open>str(e)\<close>, which for a
  \<^verbatim>\<open>KeyError\<close> is the \<^verbatim>\<open>repr\<close> of the key.
\<close>

fun str_exn :: "exn \<Rightarrow> string" where
  "str_exn (RequestException m) = m"
| "str_exn (JSONDecodeError m) = m"
| "str_exn (KeyError k) = k"
| "str_exn (IndexError m) = m"
| "str_exn (TypeError m) = m"
| "str_exn (Halt m) = m"

datatype 'a body = Invalid string | Parsed 'a

text \<open>
  What \<^verbatim>\<open>requests.get\<close> does: it raises (\<open>Raises\<close>, with the text of the exception), or
  it returns a response with a status code and a body; \<^verbatim>\<open>response.json()\<close> raises on a
  body that is not JSON (\<open>Invalid\<close>, with the decoder's text).
\<close>

datatype 'a reply = Raises string | Response nat "'a body"

fun json :: "'a body \<Rightarrow> exn + 'a" where
  "json (Invalid m) = Inl (JSONDecodeError m)"
| "json (Parsed v) = Inr v"

fun digit_char :: "nat \<Rightarrow> char" where
  "digit_char n = char_of (48 + n)"

fun str_nat :: "nat \<Rightarrow> string" where
  "str_nat n = (if n < 10 then [digit_char n] else str_nat (n div 10) @ [digit_char (n mod 10)])"

declare str_nat.simps [simp del]

subsection \<open>Python's \<^verbatim>\<open>str.title\<close> on ASCII text\<close>

definition is_lower :: "char \<Rightarrow> bool" where
  "is_lower c = (97 \<le> (of_char c :: nat) \<and> (of_char c :: nat) \<le> 122)"

definition is_upper :: "char \<Rightarrow> bool" where
  "is_upper c = (65 \<le> (of_char c :: nat) \<and> (of_char c :: nat) \<le> 90)"

definition to_upper :: "char \<Rightarrow> char" where
  "to_upper c = (if is_lower c then char_of ((of_char c :: nat) - 32) else c)"

definition to_lower :: "char \<Rightarrow> char" where
  "to_lower c = (if is_upper c then char_of ((of_char c :: nat) + 32) else c)"

text \<open>
  \<^verbatim>\<open>s.title()\<close>: a letter that follows a letter is lowered, a letter that follows anything
  else is raised; every other character is kept. The flag is "the previous character was
  a letter". A text is the list of the bytes of its UTF-8 encoding, and a byte from 128 on
  belongs to a character outside ASCII. Such a character is taken to be a letter that is
  already in the case it needs: its bytes are kept, and what follows it follows a letter
  (in \<^verbatim>\<open>sao paulo\<close> written with a tilde on the \<^verbatim>\<open>a\<close>, the two bytes of that letter are
  kept and the \<^verbatim>\<open>o\<close> after them stays small). The case mapping of letters outside ASCII,
  and the characters outside ASCII that are no letters, are not modelled.
\<close>

definition non_ascii :: "char \<Rightarrow> bool" where
  "non_ascii c = (128 \<le> (of_char c :: nat))"

fun title_from :: "bool \<Rightarrow> string \<Rightarrow> string" where
  "title_from prev [] = []"
| "title_from prev (c # cs) =
     (if is_lower c \<or> is_upper c
      then (if prev then to_lower c else to_upper c) # title_from True cs
      else if non_ascii c then c # title_from True cs
      else c # title_from False cs)"

definition title :: "string \<Rightarrow> string" where
  "title s = title_from False s"

subsection \<open>The geocoder\<close>

text \<open>
  A value of a field of the geocoder's payload, as Python has it after \<^verbatim>\<open>json()\<close>:
  \<^verbatim>\<open>None\<close> for JSON \<^verbatim>\<open>null\<close>, a number, or a text.
\<close>

datatype json_value = JNull | JNumber rat | JString string

text \<open>
  An element of the list of matches: an object, given by its keys and values, or
  something that is no object, on which \<^verbatim>\<open>['lat']\<close> raises \<^verbatim>\<open>TypeError\<close> with the text
  given.
\<close>

datatype geocode_entry = Entry "(string \<times> json_value) list" | Not_An_Object string

text \<open>The body of the geocoding service: a list, or JSON of another kind.\<close>

datatype geocode_json = Geocode_List "geocode_entry list" | Geocode_Other

definition repr_str :: "string \<Rightarrow> string" where
  "repr_str s = [CHR 0x27] @ s @ [CHR 0x27]"

text \<open>\<^verbatim>\<open>entry[key]\<close>.\<close>

fun getitem :: "geocode_entry \<Rightarrow> string \<Rightarrow> exn + json_value" where
  "getitem (Entry kvs) key =
     (case map_of kvs key of None \<Rightarrow> Inl (KeyError (repr_str key)) | Some v \<Rightarrow> Inr v)"
| "getitem (Not_An_Object m) key = Inl (TypeError m)"

text \<open>
  \<^verbatim>\<open>get_city_coordinates(city_name, api_key)\<close>, lines 31-45. The first argument of the
  model is the geocoding service: the reply to the query for a city name. The whole body
  is inside \<^verbatim>\<open>try\<close>, so every exception ends in the third component. The first two
  components are Python values, \<open>JNull\<close> being \<^verbatim>\<open>None\<close>; line 39 returns the two fields as
  they are, \<^verbatim>\<open>lat\<close> being read first.
\<close>

definition get_city_coordinates ::
  "(string \<Rightarrow> geocode_json reply) \<Rightarrow> string \<Rightarrow> json_value \<times> json_value \<times> string option" where
  "get_city_coordinates geo_api city_name =
     (case geo_api city_name of
        Raises e \<Rightarrow> (JNull, JNull, Some (''Connection error: '' @ e))
      | Response status_code b \<Rightarrow>
          if status_code = 200 then
            (case json b of
               Inl e \<Rightarrow> (JNull, JNull, Some (''Connection error: '' @ str_exn e))
             | Inr data \<Rightarrow>
                 (case data of
                    Geocode_List (g # _) \<Rightarrow>
                      (case getitem g ''lat'' of
                         Inl e \<Rightarrow> (JNull, JNull, Some (''Connection error: '' @ str_exn e))
                       | Inr la \<Rightarrow>
                           (case getitem g ''lon'' of
                              Inl e \<Rightarrow> (JNull, JNull, Some (''Connection error: '' @ str_exn e))
                            | Inr lo \<Rightarrow> (la, lo, None)))
                  | Geocode_List [] \<Rightarrow> (JNull, JNull, Some ''City not found.'')
                  | Geocode_Other \<Rightarrow> (JNull, JNull, Some ''City not found.'')))
          else (JNull, JNull, Some (''API Error: '' @ str_nat status_code)))"

subsection \<open>The forecast feed and the unit choice\<close>

datatype temperature_unit = Celsius | Fahrenheit

record weather_entry =
  description :: string
  icon :: string

text \<open>
  One element of \<^verbatim>\<open>data['list']\<close>: \<^verbatim>\<open>dt\<close>, \<^verbatim>\<open>main.temp\<close>, \<^verbatim>\<open>main.humidity\<close>,
  \<^verbatim>\<open>wind.speed\<close> and the list \<^verbatim>\<open>weather\<close>.
\<close>

record forecast_item =
  dt :: int
  temp :: rat
  humidity :: rat
  speed :: rat
  weather :: "weather_entry list"

text \<open>
  A row of \<^verbatim>\<open>forecast_df\<close>. \<open>Datetime\<close> is the naive local time that
  \<^verbatim>\<open>datetime.fromtimestamp\<close> returns, counted in seconds of the local calendar since
  1970-01-01 00:00. The temperature column is named after the unit (\<open>temp_col\<close>); it is
  one field here.
\<close>

record forecast_row =
  Datetime :: int
  Temperature :: rat
  Humidity :: rat
  Wind_Speed :: rat
  Description :: string
  Weather_Icon :: string

text \<open>
  The local time zone of the machine is a parameter: \<open>tz t\<close> is the offset from UTC, in
  seconds, that is in force at the instant \<open>t\<close>.
\<close>

definition fromtimestamp :: "(int \<Rightarrow> int) \<Rightarrow> int \<Rightarrow> int" where
  "fromtimestamp tz t = t + tz t"

text \<open>The degree sign is the two bytes C2 B0 of its UTF-8 encoding.\<close>

definition degree :: string where
  "degree = [CHR 0xC2, CHR 0xB0]"

definition temp_col :: "temperature_unit \<Rightarrow> string" where
  "temp_col u =
     (if u = Celsius then ''Temperature ('' @ degree @ ''C)''
      else ''Temperature ('' @ degree @ ''F)'')"

text \<open>Lines 114-116: the temperature of a row.\<close>

definition convert_temp :: "temperature_unit \<Rightarrow> rat \<Rightarrow> rat" where
  "convert_temp u t = (if u = Fahrenheit then (t * 9 / 5) + 32 else t)"

text \<open>The body of the loop of lines 113-125; \<^verbatim>\<open>item['weather'][0]\<close> needs an element.\<close>

definition forecast_entry ::
  "(int \<Rightarrow> int) \<Rightarrow> temperature_unit \<Rightarrow> forecast_item \<Rightarrow> exn + forecast_row" where
  "forecast_entry tz u item =
     (case weather item of
        [] \<Rightarrow> Inl (IndexError ''list index out of range'')
      | w # _ \<Rightarrow>
          Inr \<lparr> Datetime = fromtimestamp tz (dt item),
                Temperature = convert_temp u (temp item),
                Humidity = humidity item,
                Wind_Speed = speed item,
                Description = title (description w),
                Weather_Icon = icon w \<rparr>)"

text \<open>The loop: rows are appended in order, and the first exception ends it.\<close>

fun forecast_data ::
  "(int \<Rightarrow> int) \<Rightarrow> temperature_unit \<Rightarrow> forecast_item list \<Rightarrow> exn + forecast_row list" where
  "forecast_data tz u [] = Inr []"
| "forecast_data tz u (item # items) =
     (case forecast_entry tz u item of
        Inl e \<Rightarrow> Inl e
      | Inr r \<Rightarrow>
          (case forecast_data tz u items of
             Inl e \<Rightarrow> Inl e
           | Inr rs \<Rightarrow> Inr (r # rs)))"

text \<open>Line 110: the slice \<^verbatim>\<open>data['list'][:forecast_days * 8]\<close>; the slider gives 1 to 5.\<close>

definition forecast_list :: "nat \<Rightarrow> forecast_item list \<Rightarrow> forecast_item list" where
  "forecast_list forecast_days items = take (forecast_days * 8) items"

subsection \<open>The data frame and the alerts\<close>

text \<open>
  \<^verbatim>\<open>forecast_df = pd.DataFrame(forecast_data)\<close>: the columns of the frame are the keys of
  the dictionaries it is built from. A frame built from the empty list has no column at
  all, so \<^verbatim>\<open>forecast_df[name]\<close> raises \<^verbatim>\<open>KeyError\<close> there; otherwise it is the series of
  that field, in row order.
\<close>

definition column :: "string \<Rightarrow> (forecast_row \<Rightarrow> 'a) \<Rightarrow> forecast_row list \<Rightarrow> exn + 'a list" where
  "column name field df = (if df = [] then Inl (KeyError (repr_str name)) else Inr (map field df))"

text \<open>
  \<^verbatim>\<open>Series.max()\<close> and the comparison with a threshold. The maximum of an empty series is
  NaN (\<open>None\<close> here), and \<^verbatim>\<open>nan > c\<close> is false.
\<close>

fun series_max :: "rat list \<Rightarrow> rat option" where
  "series_max [] = None"
| "series_max (x # xs) = Some (fold max xs x)"

fun exceeds :: "rat option \<Rightarrow> rat \<Rightarrow> bool" where
  "exceeds None c = False"
| "exceeds (Some m) c = (m > c)"

definition wind_alert :: string where
  "wind_alert =
     [CHR 0xE2, CHR 0x9A, CHR 0xA0] @ '' High wind alert: Wind speed exceeds 10 m/s in forecast!''"

definition heat_threshold :: "temperature_unit \<Rightarrow> nat" where
  "heat_threshold u = (if u = Celsius then 35 else 95)"

definition heat_alert :: "temperature_unit \<Rightarrow> string" where
  "heat_alert u =
     [CHR 0xF0, CHR 0x9F, CHR 0x94, CHR 0xA5] @ '' Extreme heat warning: Temperatures above ''
       @ str_nat (heat_threshold u) @ degree @ '' expected!''"

text \<open>Lines 139-146.\<close>

definition alerts :: "temperature_unit \<Rightarrow> forecast_row list \<Rightarrow> exn + string list" where
  "alerts u forecast_df =
     (case column ''Wind Speed (m/s)'' Wind_Speed forecast_df of
        Inl e \<Rightarrow> Inl e
      | Inr wind \<Rightarrow>
          (case column (temp_col u) Temperature forecast_df of
             Inl e \<Rightarrow> Inl e
           | Inr temps \<Rightarrow>
               Inr ((if exceeds (series_max wind) 10 then [wind_alert] else [])
                    @ (if exceeds (series_max temps) (of_nat (heat_threshold u))
                       then [heat_alert u] else []))))"

subsection \<open>Daily aggregation\<close>

text \<open>
  \<^verbatim>\<open>x.value_counts()\<close>: the distinct values of the series with their counts, the values in
  the order of their first appearance, then sorted by falling count with ties left in
  that order. \<^verbatim>\<open>.index[0]\<close> is its first value and raises on an empty series.
\<close>

fun uniques :: "'a list \<Rightarrow> 'a list" where
  "uniques [] = []"
| "uniques (x # xs) = x # uniques (filter (\<lambda>y. y \<noteq> x) xs)"

definition value_counts :: "'a list \<Rightarrow> ('a \<times> nat) list" where
  "value_counts xs =
     sort_key (\<lambda>p. - int (snd p)) (map (\<lambda>v. (v, count_list xs v)) (uniques xs))"

definition mode_description :: "string list \<Rightarrow> exn + string" where
  "mode_description xs =
     (case value_counts xs of
        [] \<Rightarrow> Inl (IndexError ''index 0 is out of bounds for axis 0 with size 0'')
      | p # _ \<Rightarrow> Inr (fst p))"

record daily_aggregate =
  Date :: int
  Temp_Avg :: rat
  Temp_Min :: rat
  Temp_Max :: rat
  Humidity_Avg :: rat
  Wind :: rat
  Description_Mode :: string

text \<open>Line 202: the calendar day of a row, as the number of days since 1970-01-01.\<close>

definition date :: "int \<Rightarrow> int" where
  "date datetime = datetime div 86400"

text \<open>
  Rounding to binary64, to the nearest number with ties to the even significand. For
  \<open>x > 0\<close>, \<open>floor_log2 x\<close> is the \<open>e\<close> with \<open>2 ^ e \<le> x < 2 ^ (e + 1)\<close>: with \<open>x = p / q\<close> it
  is the difference of the bit lengths of \<open>p\<close> and \<open>q\<close>, or one less. A number with
  exponent \<open>e\<close> is a multiple of \<open>2 ^ (e - 52)\<close>; below \<open>2 ^ (-1022)\<close> the spacing stays
  \<open>2 ^ (-1074)\<close>. Overflow to infinity is left out: it needs a value beyond \<open>10 ^ 308\<close>.
\<close>

function bit_length :: "int \<Rightarrow> nat" where
  "bit_length n = (if n \<le> 0 then 0 else Suc (bit_length (n div 2)))"
  by pat_completeness auto
termination
  by (relation "measure nat") auto

declare bit_length.simps [simp del]

definition floor_log2 :: "rat \<Rightarrow> int" where
  "floor_log2 x =
     (case quotient_of x of
        (p, q) \<Rightarrow>
          (let k = int (bit_length p) - int (bit_length q)
           in if 2 powi k \<le> x then k else k - 1))"

definition round_half_even :: "rat \<Rightarrow> int" where
  "round_half_even m =
     (let f = \<lfloor>m\<rfloor>; d = m - of_int f
      in if d < 1 / 2 then f else if 1 / 2 < d then f + 1 else if f mod 2 = 0 then f else f + 1)"

definition fl :: "rat \<Rightarrow> rat" where
  "fl x =
     (if x = 0 then 0
      else
        (let e = max (floor_log2 \<bar>x\<bar>) (- 1022); s = 2 powi (52 - e)
         in sgn x * of_int (round_half_even (\<bar>x\<bar> * s)) / s))"

definition is_double :: "rat \<Rightarrow> bool" where
  "is_double x = (fl x = x)"

text \<open>
  \<^verbatim>\<open>'mean'\<close> of a group, as pandas computes it over a column of binary64 numbers: a
  compensated (Kahan) sum, every operation rounded,
  \<^verbatim>\<open>y = val - compensation; t = sumx + y; compensation = t - sumx - y; sumx = t\<close>,
  and then \<^verbatim>\<open>sumx / count\<close>.
\<close>

fun kahan_add :: "rat \<Rightarrow> rat \<times> rat \<Rightarrow> rat \<times> rat" where
  "kahan_add val (sumx, compensation) =
     (let y = fl (val - compensation); t = fl (sumx + y)
      in (t, fl (fl (t - sumx) - y)))"

definition mean :: "rat list \<Rightarrow> rat" where
  "mean xs = fl (fst (fold kahan_add xs (0, 0)) / of_nat (length xs))"

text \<open>
  The aggregation of one group (lines 203-208). A group of \<^verbatim>\<open>groupby\<close> has at least one
  row; on an empty series the description function raises.
\<close>

definition agg :: "int \<Rightarrow> forecast_row list \<Rightarrow> exn + daily_aggregate" where
  "agg d rows =
     (case rows of
        [] \<Rightarrow> Inl (IndexError ''index 0 is out of bounds for axis 0 with size 0'')
      | r # rs \<Rightarrow>
          (case mode_description (map Description rows) of
             Inl e \<Rightarrow> Inl e
           | Inr m \<Rightarrow>
               Inr \<lparr> Date = d,
                     Temp_Avg = mean (map Temperature rows),
                     Temp_Min = fold min (map Temperature rs) (Temperature r),
                     Temp_Max = fold max (map Temperature rs) (Temperature r),
                     Humidity_Avg = mean (map Humidity rows),
                     Wind = mean (map Wind_Speed rows),
                     Description_Mode = m \<rparr>))"

fun agg_groups :: "int list \<Rightarrow> forecast_row list \<Rightarrow> exn + daily_aggregate list" where
  "agg_groups [] df = Inr []"
| "agg_groups (d # ds) df =
     (case agg d (filter (\<lambda>r. date (Datetime r) = d) df) of
        Inl e \<Rightarrow> Inl e
      | Inr a \<Rightarrow>
          (case agg_groups ds df of
             Inl e \<Rightarrow> Inl e
           | Inr as \<Rightarrow> Inr (a # as)))"

text \<open>
  Lines 202-210: \<^verbatim>\<open>groupby('Date')\<close> has one group per distinct date, in rising order of
  the dates, and each group keeps its rows in the order of the frame.
\<close>

definition daily_forecast :: "forecast_row list \<Rightarrow> exn + daily_aggregate list" where
  "daily_forecast forecast_df =
     (case column ''Datetime'' Datetime forecast_df of
        Inl e \<Rightarrow> Inl e
      | Inr datetimes \<Rightarrow> agg_groups (sort (remdups (map date datetimes))) forecast_df)"

subsection \<open>The first tab\<close>

text \<open>
  The body of the forecast service: the key \<^verbatim>\<open>list\<close> may be missing (\<open>None\<close>), and an
  error body carries a \<^verbatim>\<open>message\<close>.
\<close>

record forecast_json =
  samples :: "forecast_item list option"
  message :: "string option"

record forecast_view =
  shown_alerts :: "string list"
  shown_daily :: "daily_aggregate list"

text \<open>
  Lines 99-210, without the drawing: forecast, table, alerts, daily aggregates.
  \<^verbatim>\<open>requests.get\<close> and \<^verbatim>\<open>response.json()\<close> of lines 102-103 are not guarded, and the
  status code is not looked at.
\<close>

definition forecast_pass ::
  "(string \<Rightarrow> forecast_json reply) \<Rightarrow> (int \<Rightarrow> int) \<Rightarrow>
   string \<Rightarrow> nat \<Rightarrow> temperature_unit \<Rightarrow> exn + forecast_view" where
  "forecast_pass forecast_api tz city forecast_days u =
     (case forecast_api city of
        Raises e \<Rightarrow> Inl (RequestException e)
      | Response _ b \<Rightarrow>
          (case json b of
             Inl e \<Rightarrow> Inl e
           | Inr data \<Rightarrow>
               (case samples data of
                  None \<Rightarrow>
                    Inl (Halt (''Forecast API error: ''
                               @ (case message data of None \<Rightarrow> ''Unknown error'' | Some m \<Rightarrow> m)))
                | Some l \<Rightarrow>
                    (case forecast_data tz u (forecast_list forecast_days l) of
                       Inl e \<Rightarrow> Inl e
                     | Inr forecast_df \<Rightarrow>
                         (case alerts u forecast_df of
                            Inl e \<Rightarrow> Inl e
                          | Inr al \<Rightarrow>
                              (case daily_forecast forecast_df of
                                 Inl e \<Rightarrow> Inl e
                               | Inr daily \<Rightarrow>
                                   Inr \<lparr> shown_alerts = al, shown_daily = daily \<rparr>))))))"

text \<open>
  Lines 87-97 and then the pass above: \<^verbatim>\<open>if coord_error:\<close> is true for a message that is
  not empty.
\<close>

definition tab1 ::
  "(string \<Rightarrow> geocode_json reply) \<Rightarrow> (string \<Rightarrow> forecast_json reply) \<Rightarrow> (int \<Rightarrow> int) \<Rightarrow>
   string \<Rightarrow> nat \<Rightarrow> temperature_unit \<Rightarrow> exn + forecast_view" where
  "tab1 geo_api forecast_api tz city forecast_days u =
     (case get_city_coordinates geo_api city of
        (_, _, coord_error) \<Rightarrow>
          (case coord_error of
             None \<Rightarrow> forecast_pass forecast_api tz city forecast_days u
           | Some m \<Rightarrow>
               if m \<noteq> [] then Inl (Halt (''Error: '' @ m))
               else forecast_pass forecast_api tz city forecast_days u))"

subsection \<open>The city comparison\<close>

text \<open>
  The body of the geocoding service as \<^verbatim>\<open>get_city_data\<close> reads it: a list of matches with
  their coordinates, or (on some errors) an object, of which only the keys matter here.
\<close>

record geo_entry =
  lat :: rat
  lon :: rat

datatype geo_json = GeoList "geo_entry list" | GeoObject "string list"

record weather_json =
  main_temp :: rat
  main_humidity :: rat
  weather_list :: "weather_entry list"

record geoname =
  population :: int

text \<open>The population of a city, or the text \<^verbatim>\<open>"Data not available"\<close>.\<close>

datatype population_value = Count int | Data_not_available

record city_data =
  City :: string
  Latitude :: rat
  Longitude :: rat
  Population :: population_value
  Temperature_C :: rat
  Humidity_pct :: rat
  Conditions :: string
  Icon :: string

text \<open>
  \<^verbatim>\<open>not geo_response.json()\<close>: an empty list and an empty object are false.
\<close>

fun falsy :: "geo_json \<Rightarrow> bool" where
  "falsy (GeoList l) = (l = [])"
| "falsy (GeoObject ks) = (ks = [])"

text \<open>
  Lines 405-412: the population lookup is inside \<^verbatim>\<open>try\<close> with a bare \<^verbatim>\<open>except\<close>, so
  everything that goes wrong gives the text.
\<close>

definition lookup_population :: "(string \<Rightarrow> geoname list reply) \<Rightarrow> string \<Rightarrow> population_value" where
  "lookup_population geonames_api city_name =
     (case geonames_api city_name of
        Raises e \<Rightarrow> Data_not_available
      | Response status_code b \<Rightarrow>
          if status_code = 200 then
            (case json b of
               Inl e \<Rightarrow> Data_not_available
             | Inr [] \<Rightarrow> Data_not_available
             | Inr (g # _) \<Rightarrow> Count (population g))
          else Data_not_available)"

text \<open>
  \<^verbatim>\<open>get_city_data(city_name)\<close>, lines 385-423. \<open>None\<close> is Python's \<^verbatim>\<open>None\<close>. Only the
  population lookup is guarded; the two other requests, their \<^verbatim>\<open>json()\<close> and the index
  \<^verbatim>\<open>[0]\<close> raise to the caller.
\<close>

definition get_city_data ::
  "(string \<Rightarrow> geo_json reply) \<Rightarrow> (rat \<Rightarrow> rat \<Rightarrow> weather_json reply) \<Rightarrow>
   (string \<Rightarrow> geoname list reply) \<Rightarrow> string \<Rightarrow> exn + city_data option" where
  "get_city_data geo_api weather_api geonames_api city_name =
     (case geo_api city_name of
        Raises e \<Rightarrow> Inl (RequestException e)
      | Response status_code b \<Rightarrow>
          if status_code \<noteq> 200 then Inr None
          else
            (case json b of
               Inl e \<Rightarrow> Inl e
             | Inr g \<Rightarrow>
                 if falsy g then Inr None
                 else
                   (case g of
                      GeoObject _ \<Rightarrow> Inl (KeyError ''0'')
                    | GeoList [] \<Rightarrow> Inl (IndexError ''list index out of range'')
                    | GeoList (geo_data # _) \<Rightarrow>
                        (case weather_api (lat geo_data) (lon geo_data) of
                           Raises e \<Rightarrow> Inl (RequestException e)
                         | Response weather_status wb \<Rightarrow>
                             if weather_status \<noteq> 200 then Inr None
                             else
                               (case json wb of
                                  Inl e \<Rightarrow> Inl e
                                | Inr weather_data \<Rightarrow>
                                    (case weather_list weather_data of
                                       [] \<Rightarrow> Inl (IndexError ''list index out of range'')
                                     | w # _ \<Rightarrow>
                                         Inr (Some
                                           \<lparr> City = title city_name,
                                             Latitude = lat geo_data,
                                             Longitude = lon geo_data,
                                             Population = lookup_population geonames_api city_name,
                                             Temperature_C = main_temp weather_data,
                                             Humidity_pct = main_humidity weather_data,
                                             Conditions = description w,
                                             Icon = icon w \<rparr>)))))))"

text \<open>
  The result of pressing the button (lines 425-442): the error message of line 429, or
  the table of both cities with the centre of the map.
\<close>

record comparison_set =
  df :: "city_data list"
  avg_lat :: rat
  avg_lon :: rat

datatype comparison = Comparison_Error string | Comparison comparison_set

definition could_not_fetch :: string where
  "could_not_fetch =
     [CHR 0xE2, CHR 0x9A, CHR 0xA0, CHR 0xEF, CHR 0xB8, CHR 0x8F]
       @ '' Could not fetch data for one or both cities. Please check the city names.''"

definition compare_cities ::
  "(string \<Rightarrow> geo_json reply) \<Rightarrow> (rat \<Rightarrow> rat \<Rightarrow> weather_json reply) \<Rightarrow>
   (string \<Rightarrow> geoname list reply) \<Rightarrow> string \<Rightarrow> string \<Rightarrow> exn + comparison" where
  "compare_cities geo_api weather_api geonames_api city1 city2 =
     (case get_city_data geo_api weather_api geonames_api city1 of
        Inl e \<Rightarrow> Inl e
      | Inr data1 \<Rightarrow>
          (case get_city_data geo_api weather_api geonames_api city2 of
             Inl e \<Rightarrow> Inl e
           | Inr data2 \<Rightarrow>
               (case (data1, data2) of
                  (Some d1, Some d2) \<Rightarrow>
                    Inr (Comparison
                      \<lparr> df = [d1, d2],
                        avg_lat = (Latitude d1 + Latitude d2) / 2,
                        avg_lon = (Longitude d1 + Longitude d2) / 2 \<rparr>)
                | _ \<Rightarrow> Inr (Comparison_Error could_not_fetch))))"

subsection \<open>Example data\<close>

text \<open>A forecast sample and a table row with the given time, temperature, wind and text.\<close>

definition sample :: "int \<Rightarrow> rat \<Rightarrow> rat \<Rightarrow> string \<Rightarrow> forecast_item" where
  "sample t c w d =
     \<lparr> dt = t, temp = c, humidity = 50, speed = w,
       weather = [\<lparr> description = d, icon = ''01d'' \<rparr>] \<rparr>"

definition row :: "int \<Rightarrow> rat \<Rightarrow> rat \<Rightarrow> string \<Rightarrow> forecast_row" where
  "row t c w d =
     \<lparr> Datetime = t, Temperature = c, Humidity = 50, Wind_Speed = w,
       Description = d, Weather_Icon = ''01d'' \<rparr>"

text \<open>
  Twenty-four samples three hours apart from 1970-01-01 00:00 UTC: eight on each of three
  days for a machine on UTC.
\<close>

definition three_days :: "forecast_item list" where
  "three_days = map (\<lambda>k. sample (int k * 10800) (of_nat k) 3 ''clear sky'') [0..<24]"

text \<open>
  A geocoding service that knows two cities, answers 404 for one name and finds nothing
  for every other; weather services that answer, answer without the \<^verbatim>\<open>weather\<close> entry, or
  are down; a population service.
\<close>

definition geo_two :: "string \<Rightarrow> geo_json reply" where
  "geo_two c =
     (if c = ''johannesburg'' then Response 200 (Parsed (GeoList [\<lparr> lat = -26, lon = 28 \<rparr>]))
      else if c = ''cape town'' then Response 200 (Parsed (GeoList [\<lparr> lat = -34, lon = 18 \<rparr>]))
      else if c = ''gone'' then Response 404 (Invalid ''Expecting value'')
      else Response 200 (Parsed (GeoList [])))"

definition geo_not_json :: "string \<Rightarrow> geo_json reply" where
  "geo_not_json c = Response 200 (Invalid ''Expecting value'')"

definition weather_ok :: "rat \<Rightarrow> rat \<Rightarrow> weather_json reply" where
  "weather_ok la lo =
     Response 200 (Parsed \<lparr> main_temp = 21, main_humidity = 40,
       weather_list = [\<lparr> description = ''clear sky'', icon = ''01d'' \<rparr>] \<rparr>)"

definition weather_malformed :: "rat \<Rightarrow> rat \<Rightarrow> weather_json reply" where
  "weather_malformed la lo =
     Response 200 (Parsed \<lparr> main_temp = 21, main_humidity = 40, weather_list = [] \<rparr>)"

definition weather_down :: "rat \<Rightarrow> rat \<Rightarrow> weather_json reply" where
  "weather_down la lo = Response 503 (Invalid ''Expecting value'')"

definition geonames_demo :: "string \<Rightarrow> geoname list reply" where
  "geonames_demo c = Response 200 (Parsed [\<lparr> population = 957441 \<rparr>])"

text \<open>The binary64 number nearest to 10.8.\<close>

definition ten_point_eight :: rat where
  "ten_point_eight = 3039929748475085 / 281474976710656"

text \<open>
  A geocoder that answers 200 with one match whose coordinates are \<^verbatim>\<open>null\<close>, and a
  geocoding service that cannot be reached.
\<close>

definition geo_null :: "string \<Rightarrow> geocode_json reply" where
  "geo_null c =
     Response 200 (Parsed (Geocode_List
       [Entry [(''name'', JString ''Null Island''), (''lat'', JNull), (''lon'', JNull)]]))"

definition geo_unreachable :: "string \<Rightarrow> geo_json reply" where
  "geo_unreachable c = Raises ''Max retries exceeded''"

section \<open>Properties\<close>

subsection \<open>The loop that builds the table\<close>

lemma forecast_data_map:
  "forecast_data tz u items = Inr rows \<Longrightarrow>
   length rows = length items \<and>
   map Temperature rows = map (\<lambda>i. convert_temp u (temp i)) items \<and>
   map Datetime rows = map (\<lambda>i. fromtimestamp tz (dt i)) items \<and>
   map Wind_Speed rows = map speed items \<and>
   map Humidity rows = map humidity items"
proof (induction items arbitrary: rows)
  case Nil
  then show ?case by simp
next
  case (Cons item items)
  from Cons.prems obtain r rs where
    r: "forecast_entry tz u item = Inr r" and rs: "forecast_data tz u items = Inr rs" and
    rows: "rows = r # rs"
    by (auto split: sum.splits)
  from r have "Temperature r = convert_temp u (temp item)" "Datetime r = fromtimestamp tz (dt item)"
    "Wind_Speed r = speed item" "Humidity r = humidity item"
    by (auto simp: forecast_entry_def split: list.splits)
  with Cons.IH [OF rs] rows show ?case by simp
qed

lemma forecast_data_total:
  "\<forall>i \<in> set items. weather i \<noteq> [] \<Longrightarrow> \<exists>rows. forecast_data tz u items = Inr rows"
proof (induction items)
  case Nil
  then show ?case by simp
next
  case (Cons item items)
  then obtain rs where rs: "forecast_data tz u items = Inr rs" by auto
  from Cons.prems obtain w ws where "weather item = w # ws" by (cases "weather item") auto
  then show ?case using rs by (simp add: forecast_entry_def)
qed



subsection \<open>Minimum, mean and maximum of a day\<close>

lemma fold_min_le: "x \<in> set (y # ys) \<Longrightarrow> fold min ys y \<le> (x :: rat)"
proof -
  assume "x \<in> set (y # ys)"
  then have "Min (set (y # ys)) \<le> x" by (intro Min_le) auto
  then show ?thesis by (simp only: Min.set_eq_fold)
qed

lemma le_fold_max: "x \<in> set (y # ys) \<Longrightarrow> (x :: rat) \<le> fold max ys y"
proof -
  assume "x \<in> set (y # ys)"
  then have "x \<le> Max (set (y # ys))" by (intro Max_ge) auto
  then show ?thesis by (simp only: Max.set_eq_fold)
qed

lemma fold_min_in: "fold min ys y \<in> set ((y :: rat) # ys)"
proof -
  have "Min (set (y # ys)) \<in> set (y # ys)" by (intro Min_in) auto
  then show ?thesis by (simp only: Min.set_eq_fold)
qed

lemma fold_max_in: "fold max ys y \<in> set ((y :: rat) # ys)"
proof -
  have "Max (set (y # ys)) \<in> set (y # ys)" by (intro Max_in) auto
  then show ?thesis by (simp only: Max.set_eq_fold)
qed

lemma fl_zero: "fl 0 = 0"
  by (simp add: fl_def)

lemma mean_single: "is_double x \<Longrightarrow> mean [x] = x"
  by (simp add: mean_def is_double_def Let_def fl_zero)

lemma kahan_add_eval:
  "fl (v - c) = y \<Longrightarrow> fl (s + y) = t \<Longrightarrow> fl (fl (t - s) - y) = c' \<Longrightarrow>
   kahan_add v (s, c) = (t, c')"
  by (simp add: Let_def)

lemma mean_three:
  "kahan_add a (0, 0) = (s1, c1) \<Longrightarrow> kahan_add b (s1, c1) = (s2, c2) \<Longrightarrow>
   kahan_add c (s2, c2) = (s3, c3) \<Longrightarrow> fl (s3 / 3) = m \<Longrightarrow> mean [a, b, c] = m"
  by (simp add: mean_def)

lemma uniques_set [simp]: "set (uniques xs) = set xs"
  by (induction xs rule: uniques.induct) auto

lemma value_counts_Nil_iff: "value_counts xs = [] \<longleftrightarrow> xs = []"
  by (cases xs) (auto simp: value_counts_def)

lemma mode_description_total: "xs \<noteq> [] \<Longrightarrow> \<exists>m. mode_description xs = Inr m"
  using value_counts_Nil_iff [of xs]
  by (cases "value_counts xs") (auto simp: mode_description_def)

lemma agg_Inr:
  "agg d (r # rs) = Inr a \<Longrightarrow>
   Date a = d \<and>
   Temp_Avg a = mean (map Temperature (r # rs)) \<and>
   Temp_Min a = fold min (map Temperature rs) (Temperature r) \<and>
   Temp_Max a = fold max (map Temperature rs) (Temperature r)"
  by (auto simp: agg_def split: sum.splits)

lemma agg_total: "rows \<noteq> [] \<Longrightarrow> \<exists>a. agg d rows = Inr a"
proof -
  assume ne: "rows \<noteq> []"
  then obtain m where "mode_description (map Description rows) = Inr m"
    using mode_description_total [of "map Description rows"] by auto
  with ne show ?thesis by (cases rows) (auto simp: agg_def)
qed

text \<open>
  Three samples at 10.8, each the binary64 number nearest to 10.8. The compensated sum
  is \<open>32.400000000000006\<close> and its third rounds to \<open>10.800000000000002\<close>, which is above
  the maximum of the day.
\<close>

lemma mean_ten_point_eight:
  "mean [ten_point_eight, ten_point_eight, ten_point_eight] = 6079859496950171 / 562949953421312"
proof -
  have y: "fl (ten_point_eight - 0) = ten_point_eight" by code_simp
  have t1: "fl (0 + ten_point_eight) = ten_point_eight" by code_simp
  have c1: "fl (fl (ten_point_eight - 0) - ten_point_eight) = 0" by code_simp
  have t2: "fl (ten_point_eight + ten_point_eight) = 3039929748475085 / 140737488355328"
    by code_simp
  have c2: "fl (fl (3039929748475085 / 140737488355328 - ten_point_eight) - ten_point_eight) = 0"
    by code_simp
  have t3: "fl (3039929748475085 / 140737488355328 + ten_point_eight)
      = 1139973655678157 / 35184372088832"
    by code_simp
  have c3: "fl (fl (1139973655678157 / 35184372088832 - 3039929748475085 / 140737488355328)
               - ten_point_eight) = 1 / 281474976710656"
    by code_simp
  have m: "fl (1139973655678157 / 35184372088832 / 3) = 6079859496950171 / 562949953421312"
    by code_simp
  show ?thesis
    by (rule mean_three [OF kahan_add_eval [OF y t1 c1] kahan_add_eval [OF y t2 c2]
          kahan_add_eval [OF y t3 c3] m])
qed

theorem mean_above_max_counterexample:
  "fl (54 / 5) = ten_point_eight \<and>
   isl (agg 0 [row 0 ten_point_eight 3 ''Rain'', row 10800 ten_point_eight 3 ''Rain'',
               row 21600 ten_point_eight 3 ''Rain'']) = False \<and>
   Temp_Max (projr (agg 0 [row 0 ten_point_eight 3 ''Rain'', row 10800 ten_point_eight 3 ''Rain'',
               row 21600 ten_point_eight 3 ''Rain''])) = 3039929748475085 / 281474976710656 \<and>
   Temp_Avg (projr (agg 0 [row 0 ten_point_eight 3 ''Rain'', row 10800 ten_point_eight 3 ''Rain'',
               row 21600 ten_point_eight 3 ''Rain''])) = 6079859496950171 / 562949953421312 \<and>
   Temp_Max (projr (agg 0 [row 0 ten_point_eight 3 ''Rain'', row 10800 ten_point_eight 3 ''Rain'',
               row 21600 ten_point_eight 3 ''Rain'']))
     < Temp_Avg (projr (agg 0 [row 0 ten_point_eight 3 ''Rain'', row 10800 ten_point_eight 3 ''Rain'',
               row 21600 ten_point_eight 3 ''Rain'']))"
proof -
  have r: "fl (54 / 5) = ten_point_eight" by code_simp
  obtain a where a: "agg 0 [row 0 ten_point_eight 3 ''Rain'', row 10800 ten_point_eight 3 ''Rain'',
               row 21600 ten_point_eight 3 ''Rain''] = Inr a"
    using agg_total [of "[row 0 ten_point_eight 3 ''Rain'', row 10800 ten_point_eight 3 ''Rain'',
               row 21600 ten_point_eight 3 ''Rain'']" 0] by auto
  from agg_Inr [OF a] have
    "Temp_Avg a = mean [ten_point_eight, ten_point_eight, ten_point_eight]" and
    "Temp_Max a = ten_point_eight"
    by (simp_all add: row_def)
  then have "Temp_Avg a = 6079859496950171 / 562949953421312" and
    "Temp_Max a = 3039929748475085 / 281474976710656"
    by (simp_all add: mean_ten_point_eight) (simp add: ten_point_eight_def)
  with a r show ?thesis by simp
qed

text \<open>
  C2, as the code has it. The aggregate of a group with at least one row exists; its
  minimum and maximum are temperatures of the group, every temperature of the group lies
  between them, and so minimum \<open>\<le>\<close> maximum. For a group of exactly one row, whose
  temperature is a binary64 number as every number of the table is, minimum, mean and
  maximum are that temperature. (The mean of a larger group is a rounded sum divided and
  rounded again; nothing is stated about its place between minimum and maximum.)
\<close>

theorem daily_min_max_single:
  "rows \<noteq> [] \<Longrightarrow>
   \<exists>a. agg d rows = Inr a \<and>
       Temp_Min a \<le> Temp_Max a \<and>
       Temp_Min a \<in> Temperature ` set rows \<and> Temp_Max a \<in> Temperature ` set rows \<and>
       (\<forall>r \<in> set rows. Temp_Min a \<le> Temperature r \<and> Temperature r \<le> Temp_Max a) \<and>
       (\<forall>r. rows = [r] \<and> is_double (Temperature r) \<longrightarrow>
          Temp_Min a = Temperature r \<and> Temp_Avg a = Temperature r \<and> Temp_Max a = Temperature r)"
proof -
  assume ne: "rows \<noteq> []"
  then obtain a where a: "agg d rows = Inr a" using agg_total by blast
  from ne obtain r rs where rows: "rows = r # rs" by (cases rows) auto
  note f = agg_Inr [OF a [unfolded rows]]
  let ?ts = "map Temperature rs"
  have between: "\<forall>x \<in> set rows. Temp_Min a \<le> Temperature x \<and> Temperature x \<le> Temp_Max a"
  proof
    fix x assume "x \<in> set rows"
    then have "Temperature x \<in> set (Temperature r # ?ts)" using rows by auto
    then show "Temp_Min a \<le> Temperature x \<and> Temperature x \<le> Temp_Max a"
      using f fold_min_le [of "Temperature x" "Temperature r" ?ts]
        le_fold_max [of "Temperature x" "Temperature r" ?ts] by simp
  qed
  have "r \<in> set rows" using rows by simp
  with between have order: "Temp_Min a \<le> Temp_Max a" by fastforce
  have mem: "Temp_Min a \<in> Temperature ` set rows \<and> Temp_Max a \<in> Temperature ` set rows"
    using f fold_min_in [of ?ts "Temperature r"] fold_max_in [of ?ts "Temperature r"] rows
    by simp
  have one: "rs = [] \<Longrightarrow> is_double (Temperature r) \<Longrightarrow>
      Temp_Min a = Temperature r \<and> Temp_Avg a = Temperature r \<and> Temp_Max a = Temperature r"
    using f by (simp add: mean_single)
  from a order mem between one rows show ?thesis by auto
qed

theorem daily_min_max_single_witness:
  "is_double 20 \<and>
   (\<exists>a. agg 0 [row 0 20 3 ''Rain''] = Inr a \<and>
        Temp_Min a = 20 \<and> Temp_Avg a = 20 \<and> Temp_Max a = 20) \<and>
   (\<exists>a. agg 0 [row 0 20 3 ''Rain'', row 10800 26 3 ''Rain'', row 21600 23 3 ''Clear Sky''] = Inr a \<and>
        Temp_Min a = 20 \<and> Temp_Max a = 26 \<and> Temp_Min a \<le> Temp_Max a)"
proof -
  have d: "is_double 20" by code_simp
  have ne1: "[row 0 20 3 ''Rain''] \<noteq> []" by simp
  from daily_min_max_single [OF ne1, of 0] obtain a1 where
    a1: "agg 0 [row 0 20 3 ''Rain''] = Inr a1" and
    one: "\<forall>r. [row 0 20 3 ''Rain''] = [r] \<and> is_double (Temperature r) \<longrightarrow>
      Temp_Min a1 = Temperature r \<and> Temp_Avg a1 = Temperature r \<and> Temp_Max a1 = Temperature r"
    by blast
  have "Temperature (row 0 20 3 ''Rain'') = 20" by (simp add: row_def)
  with one d have "Temp_Min a1 = 20 \<and> Temp_Avg a1 = 20 \<and> Temp_Max a1 = 20"
    by auto
  with a1 have first: "\<exists>a. agg 0 [row 0 20 3 ''Rain''] = Inr a \<and>
        Temp_Min a = 20 \<and> Temp_Avg a = 20 \<and> Temp_Max a = 20"
    by blast
  have ne: "[row 0 20 3 ''Rain'', row 10800 26 3 ''Rain'', row 21600 23 3 ''Clear Sky''] \<noteq> []"
    by simp
  from daily_min_max_single [OF ne, of 0] obtain a where
    a: "agg 0 [row 0 20 3 ''Rain'', row 10800 26 3 ''Rain'', row 21600 23 3 ''Clear Sky''] = Inr a"
    and b: "Temp_Min a \<le> Temp_Max a"
    by blast
  from agg_Inr [OF a] have "Temp_Min a = 20 \<and> Temp_Max a = 26"
    by (simp add: row_def)
  with a b d first show ?thesis by blast
qed

subsection \<open>One aggregate for each day\<close>

lemma agg_Date: "agg d rows = Inr a \<Longrightarrow> Date a = d"
  by (auto simp: agg_def split: list.splits sum.splits)

lemma agg_groups_Inr:
  "agg_groups ds fdf = Inr as \<Longrightarrow>
   map Date as = ds \<and>
   (\<forall>a \<in> set as. agg (Date a) (filter (\<lambda>r. date (Datetime r) = Date a) fdf) = Inr a)"
proof (induction ds arbitrary: as)
  case Nil
  then show ?case by simp
next
  case (Cons d ds)
  from Cons.prems obtain a as' where
    a: "agg d (filter (\<lambda>r. date (Datetime r) = d) fdf) = Inr a" and
    as': "agg_groups ds fdf = Inr as'" and as: "as = a # as'"
    by (auto split: sum.splits)
  from agg_Date [OF a] have "Date a = d" .
  with a Cons.IH [OF as'] as show ?case by simp
qed

lemma agg_groups_total:
  "\<forall>d \<in> set ds. filter (\<lambda>r. date (Datetime r) = d) fdf \<noteq> [] \<Longrightarrow> \<exists>as. agg_groups ds fdf = Inr as"
proof (induction ds)
  case Nil
  then show ?case by simp
next
  case (Cons d ds)
  then obtain as where as: "agg_groups ds fdf = Inr as" by auto
  from Cons.prems have "filter (\<lambda>r. date (Datetime r) = d) fdf \<noteq> []" by simp
  from agg_total [OF this] obtain a where "agg d (filter (\<lambda>r. date (Datetime r) = d) fdf) = Inr a"
    by blast
  with as show ?case by simp
qed

lemma daily_forecast_Inr:
  "daily_forecast fdf = Inr ds \<Longrightarrow>
   map Date ds = sort (remdups (map (\<lambda>r. date (Datetime r)) fdf)) \<and>
   (\<forall>a \<in> set ds. agg (Date a) (filter (\<lambda>r. date (Datetime r) = Date a) fdf) = Inr a)"
proof -
  assume d: "daily_forecast fdf = Inr ds"
  then have ne: "fdf \<noteq> []" by (auto simp: daily_forecast_def column_def)
  with d have "agg_groups (sort (remdups (map date (map Datetime fdf)))) fdf = Inr ds"
    by (simp add: daily_forecast_def column_def)
  from agg_groups_Inr [OF this] show ?thesis by (simp add: comp_def)
qed

lemma daily_forecast_total: "fdf \<noteq> [] \<Longrightarrow> \<exists>ds. daily_forecast fdf = Inr ds"
proof -
  assume ne: "fdf \<noteq> []"
  have "\<forall>d \<in> set (sort (remdups (map date (map Datetime fdf)))).
          filter (\<lambda>r. date (Datetime r) = d) fdf \<noteq> []"
    by (auto simp: filter_empty_conv)
  from agg_groups_total [OF this] ne show ?thesis by (simp add: daily_forecast_def column_def)
qed

lemma forecast_days_run:
  assumes "forecast_list D l \<noteq> []" and "\<forall>i \<in> set (forecast_list D l). weather i \<noteq> []"
  shows "\<exists>fdf ds. forecast_data tz u (forecast_list D l) = Inr fdf \<and> daily_forecast fdf = Inr ds"
proof -
  from forecast_data_total [OF assms(2)] obtain fdf where
    fdf: "forecast_data tz u (forecast_list D l) = Inr fdf" by blast
  from forecast_data_map [OF fdf] assms(1) have "fdf \<noteq> []" by auto
  from daily_forecast_total [OF this] fdf show ?thesis by blast
qed

lemma forecast_days_dates:
  assumes fdf: "forecast_data tz u (forecast_list D l) = Inr fdf" and ds: "daily_forecast fdf = Inr ds"
  shows "map Date ds = sort (remdups (map (\<lambda>i. date (fromtimestamp tz (dt i))) (take (D * 8) l)))"
proof -
  from forecast_data_map [OF fdf] have
    "map Datetime fdf = map (\<lambda>i. fromtimestamp tz (dt i)) (take (D * 8) l)"
    by (simp add: forecast_list_def)
  then have "map date (map Datetime fdf) = map date (map (\<lambda>i. fromtimestamp tz (dt i)) (take (D * 8) l))"
    by simp
  then have "map (\<lambda>r. date (Datetime r)) fdf = map (\<lambda>i. date (fromtimestamp tz (dt i))) (take (D * 8) l)"
    by (simp add: comp_def)
  with daily_forecast_Inr [OF ds] show ?thesis by simp
qed

lemma three_days_dates:
  assumes len: "length l = 24"
    and days: "\<forall>k < 24. date (fromtimestamp tz (dt (l ! k))) = d0 + int (k div 8)"
  shows "sort (remdups (map (\<lambda>i. date (fromtimestamp tz (dt i))) (take (2 * 8) l))) = [d0, d0 + 1]"
proof -
  have upt: "[0..<16] = [0, 1, 2, 3, 4, 5, 6, 7, 8, 9, 10, 11, 12, 13, 14, 15 :: nat]"
    by code_simp
  have "map (\<lambda>i. date (fromtimestamp tz (dt i))) (take 16 l)
      = map (\<lambda>k. d0 + int (k div 8)) [0..<16]"
  proof (rule nth_equalityI)
    show "length (map (\<lambda>i. date (fromtimestamp tz (dt i))) (take 16 l))
        = length (map (\<lambda>k. d0 + int (k div 8)) [0..<16])"
      using len by simp
  next
    fix k assume "k < length (map (\<lambda>i. date (fromtimestamp tz (dt i))) (take 16 l))"
    then have k: "k < 16" by simp
    then have "k < 24" by simp
    with days have "date (fromtimestamp tz (dt (l ! k))) = d0 + int (k div 8)" by blast
    with k len show "map (\<lambda>i. date (fromtimestamp tz (dt i))) (take 16 l) ! k
        = map (\<lambda>k. d0 + int (k div 8)) [0..<16] ! k"
      by simp
  qed
  then show ?thesis by (simp add: upt)
qed

text \<open>
  C3. The table is built from the first \<open>D * 8\<close> samples, which are all of them when there
  are no more than that. When the pass runs through, there is one aggregate for each
  calendar day that occurs among these samples, in rising order of the days, and each is
  the aggregate of the rows of its day. The pass runs through when there is a sample and
  every sample has a \<^verbatim>\<open>weather\<close> entry. Twenty-four samples, eight on each of three days
  in a row, give exactly two aggregates for \<open>D = 2\<close>.
\<close>

theorem daily_groups:
  "forecast_list D l = take (D * 8) l \<and>
   (length l \<le> D * 8 \<longrightarrow> forecast_list D l = l) \<and>
   (forecast_data tz u (forecast_list D l) = Inr fdf \<and> daily_forecast fdf = Inr ds \<longrightarrow>
      map Date ds = sort (remdups (map (\<lambda>i. date (fromtimestamp tz (dt i))) (take (D * 8) l))) \<and>
      sorted_wrt (<) (map Date ds) \<and>
      set (map Date ds) = (\<lambda>i. date (fromtimestamp tz (dt i))) ` set (take (D * 8) l) \<and>
      (\<forall>a \<in> set ds. agg (Date a) (filter (\<lambda>r. date (Datetime r) = Date a) fdf) = Inr a)) \<and>
   (forecast_list D l \<noteq> [] \<and> (\<forall>i \<in> set (forecast_list D l). weather i \<noteq> []) \<longrightarrow>
      (\<exists>fdf ds. forecast_data tz u (forecast_list D l) = Inr fdf \<and> daily_forecast fdf = Inr ds)) \<and>
   (length l = 24 \<and> (\<forall>k < 24. date (fromtimestamp tz (dt (l ! k))) = d0 + int (k div 8)) \<and>
    (\<forall>i \<in> set l. weather i \<noteq> []) \<longrightarrow>
      (\<exists>fdf ds. forecast_data tz u (forecast_list 2 l) = Inr fdf \<and> daily_forecast fdf = Inr ds \<and>
         length ds = 2 \<and> map Date ds = [d0, d0 + 1]))"
proof -
  have A: "forecast_list D l = take (D * 8) l" by (simp add: forecast_list_def)
  have B: "length l \<le> D * 8 \<longrightarrow> forecast_list D l = l" by (simp add: forecast_list_def)
  have C: "map Date ds = sort (remdups (map (\<lambda>i. date (fromtimestamp tz (dt i))) (take (D * 8) l))) \<and>
      sorted_wrt (<) (map Date ds) \<and>
      set (map Date ds) = (\<lambda>i. date (fromtimestamp tz (dt i))) ` set (take (D * 8) l) \<and>
      (\<forall>a \<in> set ds. agg (Date a) (filter (\<lambda>r. date (Datetime r) = Date a) fdf) = Inr a)"
    if fdf: "forecast_data tz u (forecast_list D l) = Inr fdf" and ds: "daily_forecast fdf = Inr ds"
  proof -
    note m = forecast_days_dates [OF fdf ds]
    have "sorted_wrt (<) (map Date ds)" unfolding m by (simp add: strict_sorted_iff)
    moreover have "set (map Date ds) = (\<lambda>i. date (fromtimestamp tz (dt i))) ` set (take (D * 8) l)"
      unfolding m by simp
    ultimately show ?thesis using m daily_forecast_Inr [OF ds] by blast
  qed
  have E: "\<exists>fdf ds. forecast_data tz u (forecast_list 2 l) = Inr fdf \<and> daily_forecast fdf = Inr ds \<and>
         length ds = 2 \<and> map Date ds = [d0, d0 + 1]"
    if len: "length l = 24"
      and days: "\<forall>k < 24. date (fromtimestamp tz (dt (l ! k))) = d0 + int (k div 8)"
      and w: "\<forall>i \<in> set l. weather i \<noteq> []"
  proof -
    from len have ne: "forecast_list 2 l \<noteq> []" by (auto simp: forecast_list_def)
    from w have w': "\<forall>i \<in> set (forecast_list 2 l). weather i \<noteq> []"
      by (auto simp: forecast_list_def dest: in_set_takeD)
    from forecast_days_run [OF ne w'] obtain fdf' ds' where
      fdf: "forecast_data tz u (forecast_list 2 l) = Inr fdf'" and ds: "daily_forecast fdf' = Inr ds'"
      by blast
    from forecast_days_dates [OF fdf ds] three_days_dates [OF len days]
    have m: "map Date ds' = [d0, d0 + 1]" by simp
    then have "length (map Date ds') = 2" by simp
    then have n: "length ds' = 2" by simp
    show ?thesis
      by (rule exI [of _ fdf'], rule exI [of _ ds']) (simp add: fdf ds m n)
  qed
  from A B C forecast_days_run [of D l tz u] E show ?thesis by blast
qed

theorem daily_groups_witness:
  "forecast_list 5 three_days = three_days \<and>
   (\<exists>fdf ds. forecast_data (\<lambda>t. 0) Celsius (forecast_list 2 three_days) = Inr fdf \<and>
      daily_forecast fdf = Inr ds \<and> length ds = 2 \<and> map Date ds = [0, 1] \<and>
      sorted_wrt (<) (map Date ds))"
proof -
  have len: "length three_days = 24" by (simp add: three_days_def)
  have days: "\<forall>k < 24. date (fromtimestamp (\<lambda>t. 0) (dt (three_days ! k))) = 0 + int (k div 8)"
  proof (intro allI impI)
    fix k :: nat assume "k < 24"
    then have "three_days ! k = sample (int k * 10800) (of_nat k) 3 ''clear sky''"
      by (simp add: three_days_def)
    then have "date (fromtimestamp (\<lambda>t. 0) (dt (three_days ! k))) = int k * 10800 div 86400"
      by (simp add: sample_def fromtimestamp_def date_def)
    also have "\<dots> = int (k div 8)" by (simp add: zdiv_int)
    finally show "date (fromtimestamp (\<lambda>t. 0) (dt (three_days ! k))) = 0 + int (k div 8)"
      by simp
  qed
  have w: "\<forall>i \<in> set three_days. weather i \<noteq> []" by (auto simp: three_days_def sample_def)
  from daily_groups [of 5 three_days] len have first: "forecast_list 5 three_days = three_days"
    by simp
  from daily_groups [of 2 three_days "\<lambda>t. 0" Celsius "[]" "[]" 0,
      THEN conjunct2, THEN conjunct2, THEN conjunct2, THEN conjunct2, THEN mp,
      OF conjI [OF len conjI [OF days w]]]
  obtain fdf ds where
    run: "forecast_data (\<lambda>t. 0) Celsius (forecast_list 2 three_days) = Inr fdf"
      "daily_forecast fdf = Inr ds" and two: "length ds = 2" and "map Date ds = [0, 0 + 1]"
    by auto
  then have dates: "map Date ds = [0, 1]" by simp
  from daily_groups [of 2 three_days "\<lambda>t. 0" Celsius fdf ds] run
  have "sorted_wrt (<) (map Date ds)" by blast
  with first run two dates show ?thesis by auto
qed

subsection \<open>The description of a day\<close>

lemma filter_eq_appendD:
  "filter P xs = ys @ zs \<Longrightarrow> \<exists>as bs. xs = as @ bs \<and> filter P as = ys \<and> filter P bs = zs"
proof (induction xs arbitrary: ys)
  case Nil
  then show ?case by simp
next
  case (Cons x xs)
  show ?case
  proof (cases "P x \<and> ys = []")
    case True
    with Cons.prems have "x # xs = [] @ (x # xs) \<and> filter P [] = ys \<and> filter P (x # xs) = zs"
      by simp
    then show ?thesis by blast
  next
    case False
    then obtain ys' where rest: "filter P xs = ys' @ zs" and ys: "ys = (if P x then x # ys' else ys')"
      using Cons.prems by (cases ys) (auto split: if_splits)
    from Cons.IH [OF rest] obtain as bs where
      "xs = as @ bs" "filter P as = ys'" "filter P bs = zs" by blast
    with ys have "x # xs = (x # as) @ bs \<and> filter P (x # as) = ys \<and> filter P bs = zs" by simp
    then show ?thesis by blast
  qed
qed

lemma uniques_first_occurrence:
  "uniques xs = us @ m # vs \<Longrightarrow>
   \<exists>pre post. xs = pre @ m # post \<and> m \<notin> set pre \<and> set pre \<subseteq> set us"
proof (induction xs arbitrary: us rule: uniques.induct)
  case 1
  then show ?case by simp
next
  case (2 x xs)
  show ?case
  proof (cases us)
    case Nil
    with "2.prems" have "m = x" by simp
    then have "x # xs = [] @ m # xs \<and> m \<notin> set [] \<and> set [] \<subseteq> set us" by simp
    then show ?thesis by blast
  next
    case (Cons u us')
    with "2.prems" have ux: "u = x" and rest: "uniques (filter (\<lambda>y. y \<noteq> x) xs) = us' @ m # vs"
      by auto
    from "2.IH" [OF rest] obtain pre post where
      f: "filter (\<lambda>y. y \<noteq> x) xs = pre @ m # post" and mpre: "m \<notin> set pre" and
      sub: "set pre \<subseteq> set us'"
      by blast
    from f have "m \<in> set (filter (\<lambda>y. y \<noteq> x) xs)" by simp
    then have mx: "m \<noteq> x" by simp
    from f obtain as bs where xs: "xs = as @ bs" and as: "filter (\<lambda>y. y \<noteq> x) as = pre"
      and bs: "filter (\<lambda>y. y \<noteq> x) bs = m # post"
      using filter_eq_appendD [of "\<lambda>y. y \<noteq> x" xs pre "m # post"] by blast
    from bs obtain cs ds where bsd: "bs = cs @ m # ds" and cs: "\<forall>c \<in> set cs. \<not> c \<noteq> x"
      by (auto simp: filter_eq_Cons_iff)
    have "x # xs = (x # as @ cs) @ m # ds" using xs bsd by simp
    moreover have "m \<notin> set (x # as @ cs)"
    proof
      assume "m \<in> set (x # as @ cs)"
      with mx cs have "m \<in> set as" by auto
      with mx have "m \<in> set (filter (\<lambda>y. y \<noteq> x) as)" by simp
      with as mpre show False by simp
    qed
    moreover have "set (x # as @ cs) \<subseteq> set us"
    proof
      fix y assume y: "y \<in> set (x # as @ cs)"
      show "y \<in> set us"
      proof (cases "y = x")
        case True
        then show ?thesis using Cons ux by simp
      next
        case False
        with y cs have "y \<in> set as" by auto
        with False have "y \<in> set (filter (\<lambda>y. y \<noteq> x) as)" by simp
        with as sub Cons show ?thesis by auto
      qed
    qed
    ultimately show ?thesis by blast
  qed
qed

lemma value_counts_head:
  assumes "value_counts xs = p # ps"
  shows "\<exists>m us vs. p = (m, count_list xs m) \<and> uniques xs = us @ m # vs \<and>
           (\<forall>e \<in> set xs. count_list xs e \<le> count_list xs m) \<and>
           (\<forall>e \<in> set us. count_list xs e < count_list xs m)"
proof -
  let ?g = "\<lambda>v. (v, count_list xs v)"
  let ?f = "\<lambda>q :: 'a \<times> nat. - int (snd q)"
  let ?qs = "map ?g (uniques xs)"
  have S: "sort_key ?f ?qs = p # ps" using assms by (simp add: value_counts_def)
  have "sorted (map ?f (sort_key ?f ?qs))" by (rule sorted_sort_key)
  with S have low: "\<forall>q \<in> set ps. ?f p \<le> ?f q" by simp
  have sets: "set (p # ps) = set ?qs" using S set_sort [of ?f ?qs] by simp
  have least: "\<forall>q \<in> set ?qs. snd q \<le> snd p"
  proof
    fix q assume "q \<in> set ?qs"
    with sets have "q = p \<or> q \<in> set ps" by auto
    then show "snd q \<le> snd p" using low by auto
  qed
  have "filter (\<lambda>y. ?f y = ?f p) (sort_key ?f ?qs) = filter (\<lambda>y. ?f y = ?f p) ?qs"
    by (rule sort_key_stable)
  with S have "filter (\<lambda>y. ?f y = ?f p) ?qs = p # filter (\<lambda>y. ?f y = ?f p) ps" by simp
  then obtain us' vs' where qs: "?qs = us' @ p # vs'" and before: "\<forall>u \<in> set us'. ?f u \<noteq> ?f p"
    by (auto simp: filter_eq_Cons_iff)
  from qs obtain us r where u: "uniques xs = us @ r" and us': "us' = map ?g us"
    and r: "map ?g r = p # vs'"
    by (auto simp: map_eq_append_conv)
  from r obtain m vs where rm: "r = m # vs" and p: "p = ?g m" by (auto simp: map_eq_Cons_conv)
  have max: "\<forall>e \<in> set xs. count_list xs e \<le> count_list xs m"
  proof
    fix e assume "e \<in> set xs"
    then have "?g e \<in> set ?qs" by simp
    with least p show "count_list xs e \<le> count_list xs m" by fastforce
  qed
  have strict: "\<forall>e \<in> set us. count_list xs e < count_list xs m"
  proof
    fix e assume e: "e \<in> set us"
    then have "?g e \<in> set us'" using us' by simp
    with before p have ne: "count_list xs e \<noteq> count_list xs m" by fastforce
    from e u have "e \<in> set (uniques xs)" by simp
    then have "e \<in> set xs" by simp
    with max ne show "count_list xs e < count_list xs m" by fastforce
  qed
  from p u rm max strict show ?thesis by blast
qed

lemma mode_description_first:
  "(xs \<noteq> [] \<longrightarrow>
      (\<exists>m pre post. mode_description xs = Inr m \<and> xs = pre @ m # post \<and> m \<notin> set pre \<and>
         (\<forall>e. count_list xs e \<le> count_list xs m) \<and>
         (\<forall>e \<in> set pre. count_list xs e < count_list xs m))) \<and>
   mode_description [''clear'', ''clear'', ''rain'', ''rain''] = Inr ''clear''"
proof -
  have ex: "mode_description [''clear'', ''clear'', ''rain'', ''rain''] = Inr ''clear''"
    by (simp add: mode_description_def value_counts_def)
  have "\<exists>m pre post. mode_description xs = Inr m \<and> xs = pre @ m # post \<and> m \<notin> set pre \<and>
         (\<forall>e. count_list xs e \<le> count_list xs m) \<and>
         (\<forall>e \<in> set pre. count_list xs e < count_list xs m)" if ne: "xs \<noteq> []"
  proof -
    from ne obtain p ps where vc: "value_counts xs = p # ps"
      using value_counts_Nil_iff [of xs] by (cases "value_counts xs") auto
    from value_counts_head [OF vc] obtain m us vs where
      p: "p = (m, count_list xs m)" and u: "uniques xs = us @ m # vs" and
      max: "\<forall>e \<in> set xs. count_list xs e \<le> count_list xs m" and
      strict: "\<forall>e \<in> set us. count_list xs e < count_list xs m"
      by blast
    from uniques_first_occurrence [OF u] obtain pre post where
      xs: "xs = pre @ m # post" and mpre: "m \<notin> set pre" and sub: "set pre \<subseteq> set us"
      by blast
    have m: "mode_description xs = Inr m" using vc p by (simp add: mode_description_def)
    have all: "\<forall>e. count_list xs e \<le> count_list xs m"
    proof
      fix e show "count_list xs e \<le> count_list xs m"
      proof (cases "e \<in> set xs")
        case True
        with max show ?thesis by blast
      next
        case False
        then show ?thesis by (simp add: count_list_0_iff)
      qed
    qed
    from m xs mpre all strict sub show ?thesis by blast
  qed
  with ex show ?thesis by blast
qed

lemma agg_mode:
  "agg d rows = Inr a \<Longrightarrow> mode_description (map Description rows) = Inr (Description_Mode a)"
  by (auto simp: agg_def split: list.splits sum.splits)

lemma agg_first_most_frequent:
  assumes "agg d rows = Inr a"
  shows "\<exists>pre post. map Description rows = pre @ Description_Mode a # post \<and>
           Description_Mode a \<notin> set pre \<and>
           (\<forall>e. count_list (map Description rows) e
                  \<le> count_list (map Description rows) (Description_Mode a)) \<and>
           (\<forall>e \<in> set pre. count_list (map Description rows) e
                  < count_list (map Description rows) (Description_Mode a))"
proof -
  from assms have "rows \<noteq> []" by (auto simp: agg_def)
  then have "map Description rows \<noteq> []" by simp
  with mode_description_first [of "map Description rows"] agg_mode [OF assms]
  show ?thesis by auto
qed

text \<open>
  C4. The description of a day, \<open>Description_Mode\<close> of its aggregate, is a description
  \<open>m\<close> of the group that no description of the group outnumbers, and every description
  that stands before the first \<open>m\<close> occurs less often than \<open>m\<close>: among the most frequent
  descriptions it is the one that appears first. This holds for the aggregate of every
  group with at least one row, and so for every aggregate of the daily table and the
  rows of its day. A group with the descriptions clear, clear, rain, rain has clear.
\<close>

theorem modal_description:
  "(rows \<noteq> [] \<longrightarrow>
      (\<exists>a pre post. agg d rows = Inr a \<and>
         map Description rows = pre @ Description_Mode a # post \<and>
         Description_Mode a \<notin> set pre \<and>
         (\<forall>e. count_list (map Description rows) e
                \<le> count_list (map Description rows) (Description_Mode a)) \<and>
         (\<forall>e \<in> set pre. count_list (map Description rows) e
                < count_list (map Description rows) (Description_Mode a)))) \<and>
   (daily_forecast fdf = Inr ds \<and> b \<in> set ds \<longrightarrow>
      (\<exists>pre post.
         map Description (filter (\<lambda>r. date (Datetime r) = Date b) fdf)
           = pre @ Description_Mode b # post \<and>
         Description_Mode b \<notin> set pre \<and>
         (\<forall>e. count_list (map Description (filter (\<lambda>r. date (Datetime r) = Date b) fdf)) e
                \<le> count_list (map Description (filter (\<lambda>r. date (Datetime r) = Date b) fdf))
                     (Description_Mode b)) \<and>
         (\<forall>e \<in> set pre.
            count_list (map Description (filter (\<lambda>r. date (Datetime r) = Date b) fdf)) e
              < count_list (map Description (filter (\<lambda>r. date (Datetime r) = Date b) fdf))
                  (Description_Mode b)))) \<and>
   (map Description rows = [''clear'', ''clear'', ''rain'', ''rain''] \<longrightarrow>
      (\<exists>a. agg d rows = Inr a \<and> Description_Mode a = ''clear''))"
proof -
  have A: "\<exists>a pre post. agg d rows = Inr a \<and>
         map Description rows = pre @ Description_Mode a # post \<and>
         Description_Mode a \<notin> set pre \<and>
         (\<forall>e. count_list (map Description rows) e
                \<le> count_list (map Description rows) (Description_Mode a)) \<and>
         (\<forall>e \<in> set pre. count_list (map Description rows) e
                < count_list (map Description rows) (Description_Mode a))"
    if "rows \<noteq> []"
  proof -
    from agg_total [OF that] obtain a where a: "agg d rows = Inr a" by blast
    from agg_first_most_frequent [OF a] a show ?thesis by blast
  qed
  have B: "\<exists>pre post.
         map Description (filter (\<lambda>r. date (Datetime r) = Date b) fdf)
           = pre @ Description_Mode b # post \<and>
         Description_Mode b \<notin> set pre \<and>
         (\<forall>e. count_list (map Description (filter (\<lambda>r. date (Datetime r) = Date b) fdf)) e
                \<le> count_list (map Description (filter (\<lambda>r. date (Datetime r) = Date b) fdf))
                     (Description_Mode b)) \<and>
         (\<forall>e \<in> set pre.
            count_list (map Description (filter (\<lambda>r. date (Datetime r) = Date b) fdf)) e
              < count_list (map Description (filter (\<lambda>r. date (Datetime r) = Date b) fdf))
                  (Description_Mode b))"
    if ds: "daily_forecast fdf = Inr ds" and b: "b \<in> set ds"
  proof -
    from daily_forecast_Inr [OF ds] b
    have "agg (Date b) (filter (\<lambda>r. date (Datetime r) = Date b) fdf) = Inr b" by blast
    from agg_first_most_frequent [OF this] show ?thesis .
  qed
  have C: "\<exists>a. agg d rows = Inr a \<and> Description_Mode a = ''clear''"
    if ex: "map Description rows = [''clear'', ''clear'', ''rain'', ''rain'']"
  proof -
    from ex have "rows \<noteq> []" by auto
    from agg_total [OF this] obtain a where a: "agg d rows = Inr a" by blast
    have "mode_description [''clear'', ''clear'', ''rain'', ''rain''] = Inr ''clear''"
      by (simp add: mode_description_def value_counts_def)
    with agg_mode [OF a] ex have "Description_Mode a = ''clear''" by simp
    with a show ?thesis by blast
  qed
  from A B C show ?thesis by blast
qed

theorem modal_description_witness:
  "(\<exists>a. agg 0 [row 0 20 3 ''rain'', row 1 20 3 ''clear'', row 2 20 3 ''fog'', row 3 20 3 ''clear'',
             row 4 20 3 ''rain''] = Inr a \<and> Description_Mode a = ''rain'') \<and>
   (\<exists>a. agg 0 [row 0 20 3 ''clear'', row 1 20 3 ''clear'', row 2 20 3 ''rain'', row 3 20 3 ''rain'']
        = Inr a \<and> Description_Mode a = ''clear'') \<and>
   (\<exists>ds b. daily_forecast [row 0 20 3 ''Rain''] = Inr ds \<and> b \<in> set ds \<and>
        Description_Mode b = ''Rain'')"
proof -
  let ?five = "[row 0 20 3 ''rain'', row 1 20 3 ''clear'', row 2 20 3 ''fog'', row 3 20 3 ''clear'',
             row 4 20 3 ''rain'']"
  let ?four = "[row 0 20 3 ''clear'', row 1 20 3 ''clear'', row 2 20 3 ''rain'', row 3 20 3 ''rain'']"
  have ne: "?five \<noteq> []" by simp
  from modal_description [of ?five 0, THEN conjunct1, THEN mp, OF ne] obtain a pre post where
    a: "agg 0 ?five = Inr a" and
    split: "map Description ?five = pre @ Description_Mode a # post" and
    first: "Description_Mode a \<notin> set pre" and
    most: "\<forall>e. count_list (map Description ?five) e
            \<le> count_list (map Description ?five) (Description_Mode a)" and
    less: "\<forall>e \<in> set pre. count_list (map Description ?five) e
            < count_list (map Description ?five) (Description_Mode a)"
    by blast
  have descs: "map Description ?five = [''rain'', ''clear'', ''fog'', ''clear'', ''rain'']"
    by (simp add: row_def)
  from split descs have "Description_Mode a \<in> {''rain'', ''clear'', ''fog''}"
    by (auto simp: append_eq_Cons_conv Cons_eq_append_conv)
  moreover have "Description_Mode a \<noteq> ''fog''"
  proof
    assume "Description_Mode a = ''fog''"
    with most descs have "count_list [''rain'', ''clear'', ''fog'', ''clear'', ''rain''] ''rain''
        \<le> count_list [''rain'', ''clear'', ''fog'', ''clear'', ''rain''] ''fog''"
      by metis
    then show False by simp
  qed
  moreover have "Description_Mode a \<noteq> ''clear''"
  proof
    assume c: "Description_Mode a = ''clear''"
    with split descs first have "pre = [''rain'']"
      by (auto simp: append_eq_Cons_conv Cons_eq_append_conv)
    with less descs c have "count_list [''rain'', ''clear'', ''fog'', ''clear'', ''rain''] ''rain''
        < count_list [''rain'', ''clear'', ''fog'', ''clear'', ''rain''] ''clear''"
      by simp
    then show False by simp
  qed
  ultimately have "Description_Mode a = ''rain''" by blast
  with a have one: "\<exists>a. agg 0 ?five = Inr a \<and> Description_Mode a = ''rain''" by blast
  have four: "map Description ?four = [''clear'', ''clear'', ''rain'', ''rain'']"
    by (simp add: row_def)
  have two: "\<exists>a. agg 0 ?four = Inr a \<and> Description_Mode a = ''clear''"
    by (rule modal_description [of ?four 0, THEN conjunct2, THEN conjunct2, THEN mp, OF four])
  obtain ds where ds: "daily_forecast [row 0 20 3 ''Rain''] = Inr ds"
    using daily_forecast_total [of "[row 0 20 3 ''Rain'']"] by auto
  from daily_forecast_Inr [OF ds] have "map Date ds = [0]" by (simp add: row_def date_def)
  then obtain b where bs: "ds = [b]" and "Date b = 0" by auto
  then have b: "b \<in> set ds" by simp
  from modal_description [of "[]" 0 "[row 0 20 3 ''Rain'']" ds b,
      THEN conjunct2, THEN conjunct1, THEN mp, OF conjI [OF ds b]]
  obtain pre' post' where
    "map Description (filter (\<lambda>r. date (Datetime r) = Date b) [row 0 20 3 ''Rain''])
       = pre' @ Description_Mode b # post'"
    by blast
  with \<open>Date b = 0\<close> have "Description_Mode b = ''Rain''"
    by (auto simp: row_def date_def append_eq_Cons_conv Cons_eq_append_conv)
  with ds b have three: "\<exists>ds b. daily_forecast [row 0 20 3 ''Rain''] = Inr ds \<and> b \<in> set ds \<and>
        Description_Mode b = ''Rain''"
    by blast
  from one two three show ?thesis by blast
qed

subsection \<open>The empty forecast\<close>

text \<open>
  C5. With an empty list of samples the table has no column: the wind test of line 142
  raises \<^verbatim>\<open>KeyError\<close>, and so would the grouping of line 202. No empty sequence of daily
  aggregates is produced.
\<close>

theorem empty_forecast_raises:
  "forecast_pass (\<lambda>c. Response 200 (Parsed \<lparr> samples = Some [], message = None \<rparr>)) tz city forecast_days u
     = Inl (KeyError (repr_str ''Wind Speed (m/s)'')) \<and>
   alerts u [] = Inl (KeyError (repr_str ''Wind Speed (m/s)'')) \<and>
   daily_forecast [] = Inl (KeyError (repr_str ''Datetime''))"
  by (simp add: forecast_pass_def forecast_list_def alerts_def daily_forecast_def column_def)

subsection \<open>Alerts\<close>

lemma exceeds_series_max: "exceeds (series_max xs) c \<longleftrightarrow> (\<exists>x \<in> set xs. c < x)"
proof (cases xs)
  case Nil
  then show ?thesis by simp
next
  case (Cons y ys)
  have "fold max ys y = Max (set (y # ys))" by (simp only: Max.set_eq_fold)
  moreover have "c < Max (set (y # ys)) \<longleftrightarrow> (\<exists>x \<in> set (y # ys). c < x)"
    by (intro Max_gr_iff) auto
  ultimately show ?thesis using Cons by simp
qed

lemma alerts_nonempty:
  "forecast_df \<noteq> [] \<Longrightarrow>
   alerts u forecast_df =
     Inr ((if \<exists>r \<in> set forecast_df. 10 < Wind_Speed r then [wind_alert] else [])
          @ (if \<exists>r \<in> set forecast_df. of_nat (heat_threshold u) < Temperature r
             then [heat_alert u] else []))"
  by (simp add: alerts_def column_def exceeds_series_max)

lemma alerts_empty: "alerts u [] = Inl (KeyError (repr_str ''Wind Speed (m/s)''))"
  by (simp add: alerts_def column_def)

lemma wind_heat_distinct: "heat_alert u \<noteq> wind_alert"
  by (simp add: heat_alert_def wind_alert_def)

text \<open>
  C6. Over a table with at least one row, the list of alerts holds the wind alert once
  when some row has a wind speed above 10, and not at all otherwise. (Over the empty
  table line 142 raises, and nothing is emitted.)
\<close>

theorem wind_alert_iff:
  "(forecast_df = [] \<longrightarrow> (\<exists>e. alerts u forecast_df = Inl e)) \<and>
   (forecast_df \<noteq> [] \<longrightarrow>
      (\<exists>al. alerts u forecast_df = Inr al \<and>
            count_list al wind_alert = (if \<exists>r \<in> set forecast_df. 10 < Wind_Speed r then 1 else 0)))"
  using wind_heat_distinct [of u] by (auto simp: alerts_nonempty alerts_empty)

theorem wind_alert_iff_witness:
  "(\<exists>al. alerts Celsius [row 0 20 3 ''Rain'', row 10800 20 5 ''Rain'', row 21600 20 12 ''Rain''] = Inr al \<and>
         count_list al wind_alert = 1) \<and>
   (\<exists>al. alerts Celsius [row 0 20 3 ''Rain'', row 10800 20 5 ''Rain'', row 21600 20 9 ''Rain''] = Inr al \<and>
         count_list al wind_alert = 0) \<and>
   (\<exists>e. alerts Celsius [] = Inl e)"
  using wind_alert_iff [of "[row 0 20 3 ''Rain'', row 10800 20 5 ''Rain'', row 21600 20 12 ''Rain'']" Celsius]
    wind_alert_iff [of "[row 0 20 3 ''Rain'', row 10800 20 5 ''Rain'', row 21600 20 9 ''Rain'']" Celsius]
    wind_alert_iff [of "[]" Celsius]
  by (simp add: row_def)

text \<open>
  C7. Over a table with at least one row, the list of alerts holds the heat alert once
  when some row has a temperature above the threshold of the unit, 35 for Celsius and 95
  for Fahrenheit, and not at all otherwise.
\<close>

theorem heat_alert_iff:
  "(forecast_df = [] \<longrightarrow> (\<exists>e. alerts u forecast_df = Inl e)) \<and>
   (forecast_df \<noteq> [] \<longrightarrow>
      (\<exists>al. alerts u forecast_df = Inr al \<and>
            count_list al (heat_alert u) =
              (if \<exists>r \<in> set forecast_df. (if u = Celsius then 35 else 95) < Temperature r
               then 1 else 0)))"
  using wind_heat_distinct [of u]
  by (cases u) (auto simp: alerts_nonempty alerts_empty heat_threshold_def)

theorem heat_alert_iff_witness:
  "(\<exists>al. alerts Celsius [row 0 36 3 ''Rain''] = Inr al \<and> count_list al (heat_alert Celsius) = 1) \<and>
   (\<exists>al. alerts Fahrenheit [row 0 (convert_temp Fahrenheit 36) 3 ''Rain''] = Inr al \<and>
         convert_temp Fahrenheit 36 = 968 / 10 \<and> count_list al (heat_alert Fahrenheit) = 1) \<and>
   (\<exists>al. alerts Celsius [row 0 34 3 ''Rain''] = Inr al \<and> count_list al (heat_alert Celsius) = 0) \<and>
   (\<exists>e. alerts Fahrenheit [] = Inl e)"
  using heat_alert_iff [of "[row 0 36 3 ''Rain'']" Celsius]
    heat_alert_iff [of "[row 0 (convert_temp Fahrenheit 36) 3 ''Rain'']" Fahrenheit]
    heat_alert_iff [of "[row 0 34 3 ''Rain'']" Celsius]
    heat_alert_iff [of "[]" Fahrenheit]
  by (simp add: row_def convert_temp_def)

subsection \<open>The comparison of two cities\<close>

lemma compare_cities_Some:
  "get_city_data g w p c1 = Inr (Some d1) \<Longrightarrow> get_city_data g w p c2 = Inr (Some d2) \<Longrightarrow>
   compare_cities g w p c1 c2 =
     Inr (Comparison \<lparr> df = [d1, d2], avg_lat = (Latitude d1 + Latitude d2) / 2,
                       avg_lon = (Longitude d1 + Longitude d2) / 2 \<rparr>)"
  by (simp add: compare_cities_def)

lemma compare_cities_None:
  "get_city_data g w p c1 = Inr r1 \<Longrightarrow> get_city_data g w p c2 = Inr r2 \<Longrightarrow>
   r1 = None \<or> r2 = None \<Longrightarrow>
   compare_cities g w p c1 c2 = Inr (Comparison_Error could_not_fetch)"
  by (auto simp: compare_cities_def split: option.splits)

lemma compare_cities_Comparison:
  "compare_cities g w p c1 c2 = Inr (Comparison cs) \<Longrightarrow>
   \<exists>d1 d2. get_city_data g w p c1 = Inr (Some d1) \<and> get_city_data g w p c2 = Inr (Some d2) \<and>
           df cs = [d1, d2]"
  by (auto simp: compare_cities_def split: sum.splits option.splits)

lemma get_city_data_None:
  "(g c = Response code b \<and> code \<noteq> 200 \<longrightarrow> get_city_data g w p c = Inr None) \<and>
   (g c = Response 200 (Parsed j) \<and> falsy j \<longrightarrow> get_city_data g w p c = Inr None) \<and>
   (g c = Response 200 (Parsed (GeoList (e # es))) \<and> w (lat e) (lon e) = Response wcode wb \<and>
      wcode \<noteq> 200 \<longrightarrow> get_city_data g w p c = Inr None)"
  by (auto simp: get_city_data_def)

text \<open>
  C9. When both cities are fetched, the comparison is produced and the centre of its map
  is the average of the two latitudes and the average of the two longitudes.
\<close>

theorem midpoint_average:
  "get_city_data g w p c1 = Inr (Some d1) \<Longrightarrow> get_city_data g w p c2 = Inr (Some d2) \<Longrightarrow>
   \<exists>cs. compare_cities g w p c1 c2 = Inr (Comparison cs) \<and>
        avg_lat cs = (Latitude d1 + Latitude d2) / 2 \<and>
        avg_lon cs = (Longitude d1 + Longitude d2) / 2"
  by (simp add: compare_cities_Some)

lemma jhb: "get_city_data geo_two weather_ok geonames_demo ''johannesburg'' =
    Inr (Some \<lparr> City = ''Johannesburg'', Latitude = -26, Longitude = 28, Population = Count 957441,
      Temperature_C = 21, Humidity_pct = 40, Conditions = ''clear sky'', Icon = ''01d'' \<rparr>)"
  by code_simp

lemma cpt: "get_city_data geo_two weather_ok geonames_demo ''cape town'' =
    Inr (Some \<lparr> City = ''Cape Town'', Latitude = -34, Longitude = 18, Population = Count 957441,
      Temperature_C = 21, Humidity_pct = 40, Conditions = ''clear sky'', Icon = ''01d'' \<rparr>)"
  by code_simp

theorem midpoint_average_witness:
  "\<exists>cs. compare_cities geo_two weather_ok geonames_demo ''johannesburg'' ''cape town''
          = Inr (Comparison cs) \<and> avg_lat cs = -30 \<and> avg_lon cs = 23"
  using midpoint_average [OF jhb cpt] by simp

text \<open>
  What holds of the failures that \<^verbatim>\<open>get_city_data\<close> tests. When both calls return and one
  of them returns \<^verbatim>\<open>None\<close>, the result is the one error message of line 429. A comparison
  is produced only from two records, and it holds both. \<^verbatim>\<open>get_city_data\<close> returns
  \<^verbatim>\<open>None\<close> when the geocoding status is not 200, when the geocoding result is empty, and
  when the weather status is not 200.
\<close>

lemma comparison_all_or_nothing:
  "(get_city_data g w p c1 = Inr r1 \<and> get_city_data g w p c2 = Inr r2 \<and> (r1 = None \<or> r2 = None)
      \<longrightarrow> compare_cities g w p c1 c2 = Inr (Comparison_Error could_not_fetch)) \<and>
   (compare_cities g w p c1 c2 = Inr (Comparison cs) \<longrightarrow>
      (\<exists>d1 d2. get_city_data g w p c1 = Inr (Some d1) \<and>
               get_city_data g w p c2 = Inr (Some d2) \<and> df cs = [d1, d2])) \<and>
   (g c = Response code b \<and> code \<noteq> 200 \<longrightarrow> get_city_data g w p c = Inr None) \<and>
   (g c = Response 200 (Parsed j) \<and> falsy j \<longrightarrow> get_city_data g w p c = Inr None) \<and>
   (g c = Response 200 (Parsed (GeoList (e # es))) \<and> w (lat e) (lon e) = Response wcode wb \<and>
      wcode \<noteq> 200 \<longrightarrow> get_city_data g w p c = Inr None)"
  using compare_cities_None [of g w p c1 r1 c2 r2] compare_cities_Comparison [of g w p c1 c2 cs]
    get_city_data_None [of g c code b w p j e es wcode wb]
  by blast

text \<open>
  C8. A fetch that fails outside these tests is not turned into the error message of
  line 429. Three runs in which the fetch of the first city fails: the geocoding
  service answers 200 with a body that is not JSON, and \<^verbatim>\<open>json()\<close> of line 390 raises; the
  weather service answers 200 with a payload whose \<^verbatim>\<open>weather\<close> list is empty, and the
  index of line 421 raises; the geocoding service cannot be reached, and \<^verbatim>\<open>requests.get\<close>
  of line 388 raises. Nothing in \<^verbatim>\<open>get_city_data\<close> catches these, where the population
  lookup of the same function and \<^verbatim>\<open>get_city_coordinates\<close> catch every exception; the run
  ends with the exception, not with the message for an incomplete comparison.
\<close>

theorem comparison_malformed_raises:
  "compare_cities geo_not_json weather_ok geonames_demo ''johannesburg'' ''cape town''
     = Inl (JSONDecodeError ''Expecting value'') \<and>
   compare_cities geo_two weather_malformed geonames_demo ''johannesburg'' ''cape town''
     = Inl (IndexError ''list index out of range'') \<and>
   compare_cities geo_unreachable weather_ok geonames_demo ''johannesburg'' ''cape town''
     = Inl (RequestException ''Max retries exceeded'')"
  by code_simp

subsection \<open>The shape of the geocoder's result\<close>

text \<open>
  A reply with status 200 whose first match has \<^verbatim>\<open>null\<close> for both coordinates: line 39
  returns the two fields as they are, so the result is \<^verbatim>\<open>(None, None, None)\<close>, neither a
  coordinate nor an error.
\<close>

theorem geocoder_null_counterexample:
  "get_city_coordinates geo_null ''null island'' = (JNull, JNull, None)"
  by (simp add: get_city_coordinates_def geo_null_def)

text \<open>
  C10, as the code has it. \<^verbatim>\<open>get_city_coordinates\<close> returns either the values of the
  fields \<^verbatim>\<open>lat\<close> and \<^verbatim>\<open>lon\<close> of the first match of a reply with status 200, as they
  stand in the payload, and no error; or \<^verbatim>\<open>None\<close>, \<^verbatim>\<open>None\<close> and an error message, which is
  not empty. An error message never comes with a value other than \<^verbatim>\<open>None\<close>, and a result
  without error has two numbers when the two fields of the payload are numbers.
\<close>

theorem geocoder_shape:
  "(\<exists>la lo kvs gs.
      geo_api city_name = Response 200 (Parsed (Geocode_List (Entry kvs # gs))) \<and>
      map_of kvs ''lat'' = Some la \<and> map_of kvs ''lon'' = Some lo \<and>
      get_city_coordinates geo_api city_name = (la, lo, None)) \<or>
   (\<exists>m. get_city_coordinates geo_api city_name = (JNull, JNull, Some m) \<and> m \<noteq> [])"
proof (cases "geo_api city_name")
  case (Raises e)
  then show ?thesis by (simp add: get_city_coordinates_def)
next
  case (Response code b)
  show ?thesis
  proof (cases "code = 200")
    case False
    with Response show ?thesis by (simp add: get_city_coordinates_def)
  next
    case True
    show ?thesis
    proof (cases b)
      case (Invalid m)
      with Response True show ?thesis by (simp add: get_city_coordinates_def)
    next
      case (Parsed data)
      show ?thesis
      proof (cases data)
        case Geocode_Other
        with Response True Parsed show ?thesis by (simp add: get_city_coordinates_def)
      next
        case (Geocode_List gs)
        show ?thesis
        proof (cases gs)
          case Nil
          with Response True Parsed Geocode_List show ?thesis
            by (simp add: get_city_coordinates_def)
        next
          case (Cons g gs')
          show ?thesis
          proof (cases g)
            case (Not_An_Object m)
            with Response True Parsed Geocode_List Cons show ?thesis
              by (simp add: get_city_coordinates_def)
          next
            case (Entry kvs)
            with Response True Parsed Geocode_List Cons show ?thesis
              by (auto simp: get_city_coordinates_def repr_str_def split: option.splits)
          qed
        qed
      qed
    qed
  qed
qed

end
